theory Spec2Isabelle
  imports Complex_Main
begin

section \<open>The shuttle system's fare settlement: data model\<close>

text \<open>
  The program is \<^verbatim>\<open>system.py\<close>: a command-line shuttle service over an SQLite
  database. The two functions verified here are \<^verbatim>\<open>process_rider_tap\<close> and
  \<^verbatim>\<open>handle_end_of_shift\<close>.

  Modelling decisions, each visible in the definitions below.
  \<^item> A table is the list of its rows in rowid order; \<^verbatim>\<open>fetchone()\<close> of a query
    without \<^verbatim>\<open>ORDER BY\<close> is the first matching row (\<open>find\<close>), \<^verbatim>\<open>fetchall()\<close>
    is \<open>filter\<close>.
  \<^item> Columns that the two functions never read (email, password hash, role, stop names,
    shuttle rows) and the timestamp columns, which hold readings of
    \<^verbatim>\<open>datetime.datetime.now()\<close>, are left out of the rows.
  \<^item> The values of SQLite \<^verbatim>\<open>REAL\<close> columns and of Python floats have the type
    \<open>'m\<close>, and the float operations the two functions use are a parameter \<open>A\<close> of
    the model: every theorem stated for all \<open>A\<close> holds for the doubles of the
    program. The instance \<open>py_float\<close> below is IEEE double arithmetic on finite
    values, and the concrete evaluations use it.
  \<^item> A connection works on a pending copy of the database. \<^verbatim>\<open>conn.commit()\<close> makes
    the pending copy the stored database; \<^verbatim>\<open>conn.rollback()\<close>, and
    \<^verbatim>\<open>conn.close()\<close> without a commit, drop it.
  \<^item> Subscripting \<^verbatim>\<open>None\<close> (a \<^verbatim>\<open>fetchone()\<close> that found no row) raises
    \<open>TypeError\<close>. A write statement may raise \<open>StoreFailure\<close> (an
    \<^verbatim>\<open>sqlite3.Error\<close>) in two ways, as SQLite has them: the statement alone is
    undone and the open transaction stays as it was (a constraint or trigger abort), or
    SQLite rolls the whole open transaction back (disk full, I/O error), after which the
    next write opens a new transaction on the stored database. Which statements raise,
    and how, is a parameter of the model.
  \<^item> Each \<^verbatim>\<open>print\<close> appends a message to the output.
  \<^item> Calls are sequential: one connection at a time.
\<close>

datatype TripStatus = ACTIVE | COMPLETED | AUTO_COMPLETED

datatype TransactionType = RIDE_PAYMENT | ADD_FUNDS | ADMIN_ADJUSTMENT

record 'm user_row =
  user_id :: nat
  username :: string
  wallet_balance :: 'm

record 'm route_row =
  route_id :: nat
  base_fare :: 'm
  price_per_km :: 'm

record 'm route_stop_row =
  route_stop_id :: nat
  rs_route_id :: nat
  rs_stop_id :: nat
  stop_order :: int
  distance_from_start :: 'm

record trip_row =
  trip_id :: nat
  rider_id :: nat
  shuttle_id :: nat
  tap_on_route_stop_id :: nat
  status :: TripStatus

record 'm txn_row =
  txn_id :: nat
  txn_rider_id :: nat
  amount :: 'm
  txn_type :: TransactionType
  related_trip_id :: "nat option"

record 'm db =
  user_tbl :: "'m user_row list"
  route_tbl :: "'m route_row list"
  route_stop_tbl :: "'m route_stop_row list"
  active_trip_tbl :: "trip_row list"
  transaction_log_tbl :: "'m txn_row list"

text \<open>
  The float operations of the two functions: \<^verbatim>\<open>+\<close>, binary and unary \<^verbatim>\<open>-\<close>,
  \<^verbatim>\<open>*\<close>, \<^verbatim>\<open>abs\<close>, \<^verbatim>\<open>round(x, 2)\<close> and \<^verbatim>\<open><\<close>.
\<close>

record 'm arith =
  fadd :: "'m \<Rightarrow> 'm \<Rightarrow> 'm"
  fsub :: "'m \<Rightarrow> 'm \<Rightarrow> 'm"
  fmul :: "'m \<Rightarrow> 'm \<Rightarrow> 'm"
  fabs :: "'m \<Rightarrow> 'm"
  fneg :: "'m \<Rightarrow> 'm"
  fround2 :: "'m \<Rightarrow> 'm"
  flt :: "'m \<Rightarrow> 'm \<Rightarrow> bool"

datatype error = TypeError | StoreFailure

text \<open>The four write statements of the two functions.\<close>

datatype stmt = UpdateWalletBalance | InsertTransactionLog | UpdateTripStatus | InsertActiveTrip

text \<open>
  What a write statement does: it runs; or it raises and SQLite undoes that statement
  only; or it raises and SQLite rolls the open transaction back.
\<close>

datatype fault = Proceeds | AbortsStatement | AbortsTransaction

text \<open>The lines the two functions print, with the values they format.\<close>

datatype 'm msg =
    RiderNotFound string
  | AlreadyTappedOn string
  | TappingOff string
  | FareCharged 'm 'm
  | ForgotToTapOff string
  | ChargedMaxFare 'm 'm
  | TappingOn string
  | TapOnFailed 'm 'm
  | TapOnSuccessful
  | ErrorOccurred error
  | EndingShift
  | NoActiveTrips
  | Resolving nat
  | AutoCompleted string 'm
  | ErrorResolving nat error

text \<open>
  How the \<^verbatim>\<open>try\<close> block of \<^verbatim>\<open>process_rider_tap\<close> is left: by an exception, by a
  \<^verbatim>\<open>return\<close> statement (before the commit), or by reaching \<^verbatim>\<open>conn.commit()\<close>
  with the pending database.
\<close>

datatype 'm exit = Raise error | Return | Commit "'m db"

section \<open>SQL statements\<close>

text \<open>\<^verbatim>\<open>AUTOINCREMENT\<close>: one more than the largest id in the table (no row is ever deleted).\<close>

definition next_id :: "nat list \<Rightarrow> nat" where
  "next_id ids = Suc (fold max ids 0)"

text \<open>\<^verbatim>\<open>UPDATE user SET wallet_balance = ? WHERE id = ?\<close>\<close>

definition update_wallet_balance :: "'m \<Rightarrow> nat \<Rightarrow> 'm db \<Rightarrow> 'm db" where
  "update_wallet_balance new_balance uid w =
     w\<lparr>user_tbl := map (\<lambda>u. if user_id u = uid then u\<lparr>wallet_balance := new_balance\<rparr> else u)
                       (user_tbl w)\<rparr>"

text \<open>\<^verbatim>\<open>INSERT INTO transaction_log (rider_id, amount, type, timestamp, related_trip_id) VALUES (...)\<close>\<close>

definition insert_transaction_log ::
  "nat \<Rightarrow> 'm \<Rightarrow> TransactionType \<Rightarrow> nat option \<Rightarrow> 'm db \<Rightarrow> 'm db" where
  "insert_transaction_log uid amt ty tid w =
     w\<lparr>transaction_log_tbl := transaction_log_tbl w @
          [\<lparr>txn_id = next_id (map txn_id (transaction_log_tbl w)), txn_rider_id = uid,
            amount = amt, txn_type = ty, related_trip_id = tid\<rparr>]\<rparr>"

text \<open>\<^verbatim>\<open>UPDATE active_trip SET status = ? WHERE id = ?\<close>\<close>

definition update_trip_status :: "TripStatus \<Rightarrow> nat \<Rightarrow> 'm db \<Rightarrow> 'm db" where
  "update_trip_status st tid w =
     w\<lparr>active_trip_tbl := map (\<lambda>t. if trip_id t = tid then t\<lparr>status := st\<rparr> else t)
                              (active_trip_tbl w)\<rparr>"

text \<open>\<^verbatim>\<open>INSERT INTO active_trip (rider_id, shuttle_id, tap_on_route_stop_id, tap_on_time, status) VALUES (...)\<close>\<close>

definition insert_active_trip :: "nat \<Rightarrow> nat \<Rightarrow> nat \<Rightarrow> TripStatus \<Rightarrow> 'm db \<Rightarrow> 'm db" where
  "insert_active_trip uid shuttle rsid st w =
     w\<lparr>active_trip_tbl := active_trip_tbl w @
          [\<lparr>trip_id = next_id (map trip_id (active_trip_tbl w)), rider_id = uid,
            shuttle_id = shuttle, tap_on_route_stop_id = rsid, status = st\<rparr>]\<rparr>"

text \<open>
  \<^verbatim>\<open>SELECT * FROM route_stop WHERE route_id = ? ORDER BY stop_order DESC LIMIT 1\<close>.
  Among rows with the same largest \<open>stop_order\<close> SQL leaves the choice open; the model
  takes the first of them in rowid order.
\<close>

definition last_stop :: "nat \<Rightarrow> 'm db \<Rightarrow> 'm route_stop_row option" where
  "last_stop rid w =
     (case filter (\<lambda>s. rs_route_id s = rid) (route_stop_tbl w) of
        [] \<Rightarrow> None
      | s # ss \<Rightarrow> Some (fold (\<lambda>x best. if stop_order best < stop_order x then x else best) ss s))"

text \<open>
  One write statement on the pending database \<open>w\<close> of a connection whose stored
  database is \<open>stored\<close>: the exception raised, if any, and the pending database after
  the statement.
\<close>

definition execute :: "fault \<Rightarrow> ('m db \<Rightarrow> 'm db) \<Rightarrow> 'm db \<Rightarrow> 'm db \<Rightarrow> error option \<times> 'm db" where
  "execute f statement stored w =
     (case f of
        Proceeds \<Rightarrow> (None, statement w)
      | AbortsStatement \<Rightarrow> (Some StoreFailure, w)
      | AbortsTransaction \<Rightarrow> (Some StoreFailure, stored))"

text \<open>
  The three writes of a settlement, as they stand at lines 460-468, 482-487 and 544-549:
  the balance update, the ledger insert with amount \<^verbatim>\<open>-fare\<close>, the trip status update.
  The first statement that raises ends the sequence.
\<close>

definition settle ::
  "'m arith \<Rightarrow> (stmt \<Rightarrow> fault) \<Rightarrow> 'm \<Rightarrow> nat \<Rightarrow> 'm \<Rightarrow> TripStatus \<Rightarrow> nat \<Rightarrow> 'm db \<Rightarrow> 'm db
     \<Rightarrow> error option \<times> 'm db" where
  "settle A raises new_balance uid fare st tid stored w =
     (case execute (raises UpdateWalletBalance) (update_wallet_balance new_balance uid) stored w of
        (Some e, w') \<Rightarrow> (Some e, w')
      | (None, w1) \<Rightarrow>
          (case execute (raises InsertTransactionLog)
                  (insert_transaction_log uid (fneg A fare) RIDE_PAYMENT (Some tid)) stored w1 of
             (Some e, w') \<Rightarrow> (Some e, w')
           | (None, w2) \<Rightarrow>
               execute (raises UpdateTripStatus) (update_trip_status st tid) stored w2))"

section \<open>\<^verbatim>\<open>process_rider_tap\<close>\<close>

text \<open>Lines 491-503: the tap-on attempt, entered with the output so far.\<close>

definition tap_on ::
  "'m arith \<Rightarrow> (stmt \<Rightarrow> fault) \<Rightarrow> 'm user_row \<Rightarrow> 'm route_row option \<Rightarrow> 'm route_stop_row \<Rightarrow> nat
     \<Rightarrow> 'm msg list \<Rightarrow> 'm db \<Rightarrow> 'm db \<Rightarrow> 'm msg list \<times> 'm exit" where
  "tap_on A raises rider route_data current_stop_data shuttle out stored w =
     (let out1 = out @ [TappingOn (username rider)]
      in (case route_data of
            None \<Rightarrow> (out1, Raise TypeError)
          | Some rd \<Rightarrow>
              if flt A (wallet_balance rider) (base_fare rd)
              then (out1 @ [TapOnFailed (base_fare rd) (wallet_balance rider)], Return)
              else (case execute (raises InsertActiveTrip)
                           (insert_active_trip (user_id rider) shuttle
                              (route_stop_id current_stop_data) ACTIVE) stored w of
                      (Some e, w') \<Rightarrow> (out1, Raise e)
                    | (None, w') \<Rightarrow> (out1 @ [TapOnSuccessful], Commit w'))))"

text \<open>Lines 453-469: the tap-off on the route of the tap-on stop.\<close>

definition tap_off ::
  "'m arith \<Rightarrow> (stmt \<Rightarrow> fault) \<Rightarrow> 'm user_row \<Rightarrow> 'm route_row option \<Rightarrow> 'm route_stop_row
     \<Rightarrow> 'm route_stop_row \<Rightarrow> trip_row \<Rightarrow> 'm db \<Rightarrow> 'm db \<Rightarrow> 'm msg list \<times> 'm exit" where
  "tap_off A raises rider route_data tap_on_stop_data current_stop_data active_trip stored w =
     (let out = [TappingOff (username rider)];
          dist_on = distance_from_start tap_on_stop_data;
          dist_off = distance_from_start current_stop_data;
          distance_traveled = fabs A (fsub A dist_off dist_on)
      in (case route_data of
            None \<Rightarrow> (out, Raise TypeError)
          | Some rd \<Rightarrow>
              (let fare = fround2 A (fadd A (base_fare rd)
                                       (fmul A distance_traveled (price_per_km rd)));
                   new_balance = fsub A (wallet_balance rider) fare
               in (case settle A raises new_balance (user_id rider) fare COMPLETED
                          (trip_id active_trip) stored w of
                     (Some e, w') \<Rightarrow> (out, Raise e)
                   | (None, w') \<Rightarrow> (out @ [FareCharged fare new_balance], Commit w')))))"

text \<open>
  Lines 471-490, followed by the tap-on attempt of lines 491-503 (\<^verbatim>\<open>active_trip\<close> is
  \<^verbatim>\<open>None\<close> by then): the old trip is charged up to the last stop of its route, the
  rider row is read again, and the current tap is a tap-on.
\<close>

definition forgot_tap_off ::
  "'m arith \<Rightarrow> (stmt \<Rightarrow> fault) \<Rightarrow> 'm user_row \<Rightarrow> 'm route_row option \<Rightarrow> 'm route_stop_row
     \<Rightarrow> 'm route_stop_row \<Rightarrow> trip_row \<Rightarrow> nat \<Rightarrow> 'm db \<Rightarrow> 'm db \<Rightarrow> 'm msg list \<times> 'm exit" where
  "forgot_tap_off A raises rider route_data tap_on_stop_data current_stop_data active_trip
       shuttle stored w =
     (let out = [ForgotToTapOff (username rider)];
          old_route_id = rs_route_id tap_on_stop_data;
          last_stop_data = last_stop old_route_id w;
          old_route_data = find (\<lambda>r. route_id r = old_route_id) (route_tbl w)
      in (case last_stop_data of
            None \<Rightarrow> (out, Raise TypeError)
          | Some ls \<Rightarrow>
              (let max_dist = fabs A (fsub A (distance_from_start ls)
                                        (distance_from_start tap_on_stop_data))
               in (case old_route_data of
                     None \<Rightarrow> (out, Raise TypeError)
                   | Some ord \<Rightarrow>
                       (let max_fare = fround2 A (fadd A (base_fare ord)
                                                    (fmul A max_dist (price_per_km ord)));
                            new_balance = fsub A (wallet_balance rider) max_fare
                        in (case settle A raises new_balance (user_id rider) max_fare
                                   AUTO_COMPLETED (trip_id active_trip) stored w of
                              (Some e, w') \<Rightarrow> (out, Raise e)
                            | (None, w') \<Rightarrow>
                                (let out' = out @ [ChargedMaxFare max_fare new_balance]
                                 in (case find (\<lambda>u. user_id u = user_id rider) (user_tbl w') of
                                       None \<Rightarrow> (out', Raise TypeError)
                                     | Some rider' \<Rightarrow>
                                         tap_on A raises rider' route_data current_stop_data
                                           shuttle out' stored w'))))))))"

text \<open>
  Lines 504-509: what the stored database is once the connection is closed. Only the
  exit through \<^verbatim>\<open>conn.commit()\<close> stores the pending database; the exception handler
  rolls back, and a \<^verbatim>\<open>return\<close> goes straight to \<^verbatim>\<open>conn.close()\<close>.
\<close>

definition finish :: "'m db \<Rightarrow> 'm msg list \<times> 'm exit \<Rightarrow> 'm msg list \<times> 'm db" where
  "finish stored r =
     (case snd r of
        Raise e \<Rightarrow> (fst r @ [ErrorOccurred e], stored)
      | Return \<Rightarrow> (fst r, stored)
      | Commit w \<Rightarrow> (fst r, w))"

text \<open>
  Lines 445-490: the rider has an ACTIVE trip. The same route-stop is checked first
  (line 449), then the route of the tap-on stop (line 452).
\<close>

definition with_active_trip ::
  "'m arith \<Rightarrow> (stmt \<Rightarrow> fault) \<Rightarrow> 'm user_row \<Rightarrow> 'm route_row option \<Rightarrow> 'm route_stop_row
     \<Rightarrow> trip_row \<Rightarrow> nat \<Rightarrow> 'm db \<Rightarrow> 'm db \<Rightarrow> 'm msg list \<times> 'm exit" where
  "with_active_trip A raises rider route_data current_stop_data active_trip shuttle stored w =
     (let tap_on_stop_data =
            find (\<lambda>s. route_stop_id s = tap_on_route_stop_id active_trip) (route_stop_tbl w)
      in if tap_on_route_stop_id active_trip = route_stop_id current_stop_data
         then ([AlreadyTappedOn (username rider)], Return)
         else (case tap_on_stop_data of
                 None \<Rightarrow> ([], Raise TypeError)
               | Some ts \<Rightarrow>
                   if rs_route_id ts = rs_route_id current_stop_data
                   then tap_off A raises rider route_data ts current_stop_data active_trip
                          stored w
                   else forgot_tap_off A raises rider route_data ts current_stop_data
                          active_trip shuttle stored w))"

text \<open>
  \<^verbatim>\<open>process_rider_tap(rider_username, current_route_stop, shuttle_id)\<close>. Of the row
  \<^verbatim>\<open>current_route_stop\<close> only the id is read, so the id is the parameter. The result
  is the printed output and the stored database after the call.
\<close>

definition process_rider_tap ::
  "'m arith \<Rightarrow> (stmt \<Rightarrow> fault) \<Rightarrow> string \<Rightarrow> nat \<Rightarrow> nat \<Rightarrow> 'm db \<Rightarrow> 'm msg list \<times> 'm db" where
  "process_rider_tap A raises rider_username current_route_stop_id shuttle stored =
     finish stored
       (case find (\<lambda>u. username u = rider_username) (user_tbl stored) of
          None \<Rightarrow> ([RiderNotFound rider_username], Return)
        | Some rider \<Rightarrow>
            (case find (\<lambda>s. route_stop_id s = current_route_stop_id) (route_stop_tbl stored) of
               None \<Rightarrow> ([], Raise TypeError)
             | Some current_stop_data \<Rightarrow>
                 (let route_data = find (\<lambda>r. route_id r = rs_route_id current_stop_data)
                                     (route_tbl stored);
                      active_trip = find (\<lambda>t. rider_id t = user_id rider \<and> status t = ACTIVE)
                                      (active_trip_tbl stored)
                  in (case active_trip of
                        None \<Rightarrow> tap_on A raises rider route_data current_stop_data shuttle []
                                  stored stored
                      | Some trip \<Rightarrow>
                          with_active_trip A raises rider route_data current_stop_data trip
                            shuttle stored stored))))"

section \<open>\<^verbatim>\<open>handle_end_of_shift\<close>\<close>

text \<open>
  Lines 529-552, the body of the loop: one trip is charged up to the last stop of its
  route. The handler of line 551 prints and goes on; it does not roll back, so the
  pending database stays as the raising statement left it. The faults of the statements
  are given per trip id.
\<close>

definition settle_trip ::
  "'m arith \<Rightarrow> (nat \<Rightarrow> stmt \<Rightarrow> fault) \<Rightarrow> 'm db \<Rightarrow> trip_row \<Rightarrow> 'm db \<Rightarrow> 'm msg \<times> 'm db" where
  "settle_trip A raises stored trip w =
     (let rider = find (\<lambda>u. user_id u = rider_id trip) (user_tbl w);
          tap_on_stop_data = find (\<lambda>s. route_stop_id s = tap_on_route_stop_id trip)
                               (route_stop_tbl w)
      in (case tap_on_stop_data of
            None \<Rightarrow> (ErrorResolving (trip_id trip) TypeError, w)
          | Some ts \<Rightarrow>
              (let rid = rs_route_id ts;
                   route_data = find (\<lambda>r. route_id r = rid) (route_tbl w);
                   last_stop_data = last_stop rid w
               in (case last_stop_data of
                     None \<Rightarrow> (ErrorResolving (trip_id trip) TypeError, w)
                   | Some ls \<Rightarrow>
                       (let max_dist = fabs A (fsub A (distance_from_start ls)
                                                 (distance_from_start ts))
                        in (case route_data of
                              None \<Rightarrow> (ErrorResolving (trip_id trip) TypeError, w)
                            | Some rd \<Rightarrow>
                                (let max_fare =
                                       fround2 A (fadd A (base_fare rd)
                                                    (fmul A max_dist (price_per_km rd)))
                                 in (case rider of
                                       None \<Rightarrow> (ErrorResolving (trip_id trip) TypeError, w)
                                     | Some r \<Rightarrow>
                                         (let new_balance = fsub A (wallet_balance r) max_fare
                                          in (case settle A (raises (trip_id trip)) new_balance
                                                     (user_id r) max_fare AUTO_COMPLETED
                                                     (trip_id trip) stored w of
                                                (Some e, w') \<Rightarrow>
                                                  (ErrorResolving (trip_id trip) e, w')
                                              | (None, w') \<Rightarrow>
                                                  (AutoCompleted (username r) max_fare,
                                                   w')))))))))))"

text \<open>Line 528: the loop over the fetched trips, on one pending database.\<close>

fun resolve_trips ::
  "'m arith \<Rightarrow> (nat \<Rightarrow> stmt \<Rightarrow> fault) \<Rightarrow> 'm db \<Rightarrow> trip_row list \<Rightarrow> 'm db \<Rightarrow> 'm msg list \<times> 'm db" where
  "resolve_trips A raises stored [] w = ([], w)"
| "resolve_trips A raises stored (trip # rest) w =
     (let r = settle_trip A raises stored trip w;
          rs = resolve_trips A raises stored rest (snd r)
      in (fst r # fst rs, snd rs))"

text \<open>
  \<^verbatim>\<open>handle_end_of_shift(shuttle_id)\<close>: the trips are fetched once, the loop runs, and
  line 553 commits the pending database.
\<close>

definition handle_end_of_shift ::
  "'m arith \<Rightarrow> (nat \<Rightarrow> stmt \<Rightarrow> fault) \<Rightarrow> nat \<Rightarrow> 'm db \<Rightarrow> 'm msg list \<times> 'm db" where
  "handle_end_of_shift A raises shuttle stored =
     (let active_trips = filter (\<lambda>t. shuttle_id t = shuttle \<and> status t = ACTIVE)
                           (active_trip_tbl stored)
      in if active_trips = [] then ([EndingShift, NoActiveTrips], stored)
         else (let rs = resolve_trips A raises stored active_trips stored
               in (EndingShift # Resolving (length active_trips) # fst rs, snd rs)))"

section \<open>Python floats\<close>

text \<open>
  IEEE 754 binary64 arithmetic on finite values, which are held as exact rationals: the
  result of an operation is the exact result rounded to the nearest double, a tie going
  to the even significand. A double is \<open>n * 2 ^ k\<close> with \<open>n\<close> below \<open>2 ^ 53\<close> and
  \<open>k\<close> at least \<open>- 1074\<close>. Infinities and NaN are not values of this instance, a
  result beyond the largest double is not turned into an infinity, and the negative zero
  is not told from zero; the evaluations below stay far from those cases.
\<close>

definition round_half_even_at :: "rat \<Rightarrow> int \<Rightarrow> int" where
  "round_half_even_at q n =
     (if q - of_int n < 1 / 2 then n
      else if 1 / 2 < q - of_int n then n + 1
      else if even n then n else n + 1)"

definition round_half_even :: "rat \<Rightarrow> int" where
  "round_half_even q = round_half_even_at q \<lfloor>q\<rfloor>"

text \<open>
  A positive \<open>q\<close> is brought between \<open>2 ^ 52\<close> and \<open>2 ^ 53\<close> by doubling (at most down
  to the exponent \<open>- 1074\<close> of the subnormal doubles) or halving; \<open>k\<close> counts the steps.
\<close>

function scale_up :: "rat \<Rightarrow> int \<Rightarrow> rat \<times> int" where
  "scale_up q k = (if q < 2 ^ 52 \<and> - 1074 < k then scale_up (2 * q) (k - 1) else (q, k))"
  by pat_completeness auto
termination
  by (relation "measure (\<lambda>(q, k). nat (k + 1074))") auto

function scale_down :: "rat \<Rightarrow> int \<Rightarrow> rat \<times> int" where
  "scale_down q k = (if 2 ^ 53 \<le> q then scale_down (q / 2) (k + 1) else (q, k))"
  by pat_completeness auto
termination
proof (relation "measure (\<lambda>(q, k). nat \<lfloor>q\<rfloor>)")
  show "wf (measure (\<lambda>(q, k). nat \<lfloor>q :: rat\<rfloor>))"
    by simp
next
  fix q :: rat and k :: int
  assume q: "2 ^ 53 \<le> q"
  have "q / 2 \<le> q - 1"
    using q by simp
  then have "\<lfloor>q / 2\<rfloor> \<le> \<lfloor>q - 1\<rfloor>"
    by (rule floor_mono)
  then have "\<lfloor>q / 2\<rfloor> < \<lfloor>q\<rfloor>"
    by simp
  moreover have "0 < \<lfloor>q\<rfloor>"
    using q by (simp add: floor_less_iff not_less)
  ultimately show "((q / 2, k + 1), (q, k)) \<in> measure (\<lambda>(q, k). nat \<lfloor>q\<rfloor>)"
    by simp
qed

declare scale_up.simps [simp del] scale_down.simps [simp del]

definition normalise :: "rat \<Rightarrow> rat \<times> int" where
  "normalise q = scale_down (fst (scale_up q 0)) (snd (scale_up q 0))"

definition pow2 :: "int \<Rightarrow> rat" where
  "pow2 k = (if 0 \<le> k then 2 ^ nat k else 1 / 2 ^ nat (- k))"

definition nearest_double :: "rat \<times> int \<Rightarrow> rat" where
  "nearest_double p = of_int (round_half_even (fst p)) * pow2 (snd p)"

text \<open>The double nearest to a rational.\<close>

definition fl :: "rat \<Rightarrow> rat" where
  "fl x =
     (if x = 0 then 0
      else if x < 0 then - nearest_double (normalise (- x))
      else nearest_double (normalise x))"

text \<open>
  \<^verbatim>\<open>round(x, 2)\<close> on a double: the exact value is rounded to two decimals, a tie
  going to the even digit, and the decimal is converted back to the nearest double.
\<close>

definition py_round2 :: "rat \<Rightarrow> rat" where
  "py_round2 x = fl (of_int (round_half_even (x * 100)) / 100)"

definition py_float :: "rat arith" where
  "py_float =
     \<lparr>fadd = (\<lambda>x y. fl (x + y)), fsub = (\<lambda>x y. fl (x - y)), fmul = (\<lambda>x y. fl (x * y)),
      fabs = abs, fneg = uminus, fround2 = py_round2, flt = (<)\<rparr>"

section \<open>Properties and starting states\<close>

text \<open>
  The sum of the ledger amounts of one rider, added in ledger order from zero \<open>z\<close> with
  the addition of \<open>A\<close>.
\<close>

definition ledger_sum :: "'m arith \<Rightarrow> 'm \<Rightarrow> 'm db \<Rightarrow> nat \<Rightarrow> 'm" where
  "ledger_sum A z w uid =
     foldl (fadd A) z (map amount (filter (\<lambda>e. txn_rider_id e = uid) (transaction_log_tbl w)))"

text \<open>
  In the arithmetic \<open>A\<close> a subtraction is the addition of the negation, as it is in
  IEEE arithmetic and in \<open>py_float\<close>.
\<close>

definition sub_is_add_neg :: "'m arith \<Rightarrow> bool" where
  "sub_is_add_neg A \<longleftrightarrow> (\<forall>x y. fsub A x y = fadd A x (fneg A y))"

text \<open>The wallet balance of rider \<open>uid\<close> is the sum of the rider's ledger amounts.\<close>

definition rider_balanced :: "'m arith \<Rightarrow> 'm \<Rightarrow> nat \<Rightarrow> 'm db \<Rightarrow> bool" where
  "rider_balanced A z uid w \<longleftrightarrow>
     (\<forall>u \<in> set (user_tbl w). user_id u = uid \<longrightarrow> wallet_balance u = ledger_sum A z w uid)"

text \<open>Every wallet balance is the sum of the rider's ledger amounts.\<close>

definition balance_invariant :: "'m arith \<Rightarrow> 'm \<Rightarrow> 'm db \<Rightarrow> bool" where
  "balance_invariant A z w \<longleftrightarrow> (\<forall>u \<in> set (user_tbl w). rider_balanced A z (user_id u) w)"

text \<open>At most one ACTIVE trip per rider: the riders of the ACTIVE trips are pairwise distinct.\<close>

definition one_active_trip_per_rider :: "'m db \<Rightarrow> bool" where
  "one_active_trip_per_rider w \<longleftrightarrow>
     distinct (map rider_id (filter (\<lambda>t. status t = ACTIVE) (active_trip_tbl w)))"

text \<open>
  The stored databases the program can reach. \<^verbatim>\<open>setup_database\<close> creates an empty
  \<^verbatim>\<open>active_trip\<close> table and \<^verbatim>\<open>seed_data\<close> inserts no trip; the two functions
  above are the only ones that write the table; every other function of the program
  (registration, funds, administration) leaves it as it is.
\<close>

inductive reachable :: "'m db \<Rightarrow> bool" where
  initial: "active_trip_tbl w = [] \<Longrightarrow> reachable w"
| tap: "reachable w \<Longrightarrow> reachable (snd (process_rider_tap A raises name cur shuttle w))"
| end_of_shift: "reachable w \<Longrightarrow> reachable (snd (handle_end_of_shift A faults shuttle w))"
| other: "reachable w \<Longrightarrow> active_trip_tbl w' = active_trip_tbl w \<Longrightarrow> reachable w'"





text \<open>
  Two databases with the same routes and route-stops and, row by row, the same user ids
  and usernames: they differ at most in balances, trips and ledger.
\<close>

definition same_rows :: "'m db \<Rightarrow> 'm db \<Rightarrow> bool" where
  "same_rows w w' \<longleftrightarrow>
     route_tbl w' = route_tbl w \<and> route_stop_tbl w' = route_stop_tbl w \<and>
     map user_id (user_tbl w') = map user_id (user_tbl w) \<and>
     map username (user_tbl w') = map username (user_tbl w)"

text \<open>The ledger rows of \<open>w'\<close> after those of \<open>w\<close>.\<close>

definition appended :: "'m db \<Rightarrow> 'm db \<Rightarrow> 'm txn_row list" where
  "appended w w' = drop (length (transaction_log_tbl w)) (transaction_log_tbl w')"

text \<open>The balances of the user rows with id \<open>uid\<close>.\<close>

definition balances :: "'m db \<Rightarrow> nat \<Rightarrow> 'm list" where
  "balances w uid = map wallet_balance (filter (\<lambda>u. user_id u = uid) (user_tbl w))"


text \<open>No write statement raises.\<close>

definition no_fault :: "stmt \<Rightarrow> fault" where
  "no_fault s = Proceeds"

definition no_faults :: "nat \<Rightarrow> stmt \<Rightarrow> fault" where
  "no_faults tid s = Proceeds"

text \<open>
  The database after \<^verbatim>\<open>setup_database\<close> and \<^verbatim>\<open>seed_data\<close> (lines 125-146): three
  users, of which \<^verbatim>\<open>rider1\<close> starts with 10.0; the route "Campus Loop" and its four
  stops at 0.0, 0.8, 1.5 and 2.1 km, as the doubles these literals denote; no trip and
  no ledger row.
\<close>

definition seeded_db :: "rat db" where
  "seeded_db =
     \<lparr>user_tbl = [\<lparr>user_id = 1, username = ''admin'', wallet_balance = 0\<rparr>,
                  \<lparr>user_id = 2, username = ''driver1'', wallet_balance = 0\<rparr>,
                  \<lparr>user_id = 3, username = ''rider1'', wallet_balance = 10\<rparr>],
      route_tbl = [\<lparr>route_id = 1, base_fare = 1 / 2, price_per_km = 1 / 4\<rparr>],
      route_stop_tbl =
        [\<lparr>route_stop_id = 1, rs_route_id = 1, rs_stop_id = 1, stop_order = 1,
          distance_from_start = 0\<rparr>,
         \<lparr>route_stop_id = 2, rs_route_id = 1, rs_stop_id = 2, stop_order = 2,
          distance_from_start = fl (4 / 5)\<rparr>,
         \<lparr>route_stop_id = 3, rs_route_id = 1, rs_stop_id = 3, stop_order = 3,
          distance_from_start = 3 / 2\<rparr>,
         \<lparr>route_stop_id = 4, rs_route_id = 1, rs_stop_id = 4, stop_order = 4,
          distance_from_start = fl (21 / 10)\<rparr>],
      active_trip_tbl = [],
      transaction_log_tbl = []\<rparr>"

text \<open>The seeded database once \<^verbatim>\<open>rider1\<close> has tapped on at the first stop, on shuttle 1.\<close>

definition seeded_riding :: "rat db" where
  "seeded_riding =
     seeded_db\<lparr>active_trip_tbl :=
       [\<lparr>trip_id = 1, rider_id = 3, shuttle_id = 1, tap_on_route_stop_id = 1,
         status = ACTIVE\<rparr>]\<rparr>"

text \<open>
  The seeded database with one more rider, \<^verbatim>\<open>rider2\<close>, who registered with 0.0, added
  10.0 with \<^verbatim>\<open>add_funds\<close> (one ADD_FUNDS ledger row) and tapped on at the first stop,
  on shuttle 1.
\<close>

definition funded_riding :: "rat db" where
  "funded_riding =
     seeded_db
     \<lparr>user_tbl := user_tbl seeded_db @
                    [\<lparr>user_id = 4, username = ''rider2'', wallet_balance = 10\<rparr>],
      active_trip_tbl :=
        [\<lparr>trip_id = 1, rider_id = 4, shuttle_id = 1, tap_on_route_stop_id = 1,
          status = ACTIVE\<rparr>],
      transaction_log_tbl :=
        [\<lparr>txn_id = 1, txn_rider_id = 4, amount = 10, txn_type = ADD_FUNDS,
          related_trip_id = None\<rparr>]\<rparr>"

text \<open>
  A database with two routes. Route 1 has stops 1 and 2 at 0 and 2 km, route 2 has stops
  3 and 4 at 0 and 1 km; both cost 0.50 plus 0.25 per km. The rider \<^verbatim>\<open>ann\<close> holds
  \<open>b\<close> and has the trips \<open>ts\<close>.
\<close>

definition two_routes :: "rat \<Rightarrow> trip_row list \<Rightarrow> rat db" where
  "two_routes b ts =
     \<lparr>user_tbl = [\<lparr>user_id = 1, username = ''ann'', wallet_balance = b\<rparr>],
      route_tbl = [\<lparr>route_id = 1, base_fare = 1 / 2, price_per_km = 1 / 4\<rparr>,
                   \<lparr>route_id = 2, base_fare = 1 / 2, price_per_km = 1 / 4\<rparr>],
      route_stop_tbl =
        [\<lparr>route_stop_id = 1, rs_route_id = 1, rs_stop_id = 1, stop_order = 1,
          distance_from_start = 0\<rparr>,
         \<lparr>route_stop_id = 2, rs_route_id = 1, rs_stop_id = 2, stop_order = 2,
          distance_from_start = 2\<rparr>,
         \<lparr>route_stop_id = 3, rs_route_id = 2, rs_stop_id = 3, stop_order = 1,
          distance_from_start = 0\<rparr>,
         \<lparr>route_stop_id = 4, rs_route_id = 2, rs_stop_id = 4, stop_order = 2,
          distance_from_start = 1\<rparr>],
      active_trip_tbl = ts,
      transaction_log_tbl = []\<rparr>"

text \<open>
  A database with two routes and short hops. Route 1 has stops 1, 2 and 3 at 0.0, 0.1 and
  0.3 km, as the doubles these literals denote; route 2 has stops 4 and 5 at 0 and 1 km;
  both cost 0.50 plus 0.25 per km. The rider \<^verbatim>\<open>ann\<close> holds \<open>b\<close> and has the
  trips \<open>ts\<close>.
\<close>

definition short_routes :: "rat \<Rightarrow> trip_row list \<Rightarrow> rat db" where
  "short_routes b ts =
     \<lparr>user_tbl = [\<lparr>user_id = 1, username = ''ann'', wallet_balance = b\<rparr>],
      route_tbl = [\<lparr>route_id = 1, base_fare = 1 / 2, price_per_km = 1 / 4\<rparr>,
                   \<lparr>route_id = 2, base_fare = 1 / 2, price_per_km = 1 / 4\<rparr>],
      route_stop_tbl =
        [\<lparr>route_stop_id = 1, rs_route_id = 1, rs_stop_id = 1, stop_order = 1,
          distance_from_start = 0\<rparr>,
         \<lparr>route_stop_id = 2, rs_route_id = 1, rs_stop_id = 2, stop_order = 2,
          distance_from_start = fl (1 / 10)\<rparr>,
         \<lparr>route_stop_id = 3, rs_route_id = 1, rs_stop_id = 3, stop_order = 3,
          distance_from_start = fl (3 / 10)\<rparr>,
         \<lparr>route_stop_id = 4, rs_route_id = 2, rs_stop_id = 4, stop_order = 1,
          distance_from_start = 0\<rparr>,
         \<lparr>route_stop_id = 5, rs_route_id = 2, rs_stop_id = 5, stop_order = 2,
          distance_from_start = 1\<rparr>],
      active_trip_tbl = ts,
      transaction_log_tbl = []\<rparr>"

text \<open>The trip of rider 1 on shuttle 1, tapped on at route-stop 1 (route 1, 0 km).\<close>

definition trip1 :: trip_row where
  "trip1 = \<lparr>trip_id = 1, rider_id = 1, shuttle_id = 1, tap_on_route_stop_id = 1,
            status = ACTIVE\<rparr>"

text \<open>The trip of rider 2 on shuttle 1, tapped on at route-stop 2 (route 1, 2 km, the last stop).\<close>

definition trip2 :: trip_row where
  "trip2 = \<lparr>trip_id = 2, rider_id = 2, shuttle_id = 1, tap_on_route_stop_id = 2,
            status = ACTIVE\<rparr>"

text \<open>Two riders with 5.00 each, both with an ACTIVE trip on shuttle 1 of route 1.\<close>

definition shift_db :: "rat db" where
  "shift_db =
     (two_routes 5 [trip1, trip2])
     \<lparr>user_tbl := [\<lparr>user_id = 1, username = ''ann'', wallet_balance = 5\<rparr>,
                   \<lparr>user_id = 2, username = ''bob'', wallet_balance = 5\<rparr>]\<rparr>"

text \<open>The trip of rider 3 on shuttle 1, tapped on at route-stop 1 (route 1, 0 km).\<close>

definition trip3 :: trip_row where
  "trip3 = \<lparr>trip_id = 3, rider_id = 3, shuttle_id = 1, tap_on_route_stop_id = 1,
            status = ACTIVE\<rparr>"

text \<open>Three riders with 5.00 each, all with an ACTIVE trip on shuttle 1 of route 1.\<close>

definition long_shift_db :: "rat db" where
  "long_shift_db =
     (two_routes 5 [trip1, trip2, trip3])
     \<lparr>user_tbl := [\<lparr>user_id = 1, username = ''ann'', wallet_balance = 5\<rparr>,
                   \<lparr>user_id = 2, username = ''bob'', wallet_balance = 5\<rparr>,
                   \<lparr>user_id = 3, username = ''cat'', wallet_balance = 5\<rparr>]\<rparr>"

text \<open>The ledger insert of trip 1 raises and is undone alone; nothing else raises.\<close>

definition ledger_insert_fails :: "nat \<Rightarrow> stmt \<Rightarrow> fault" where
  "ledger_insert_fails tid s =
     (if tid = 1 \<and> s = InsertTransactionLog then AbortsStatement else Proceeds)"

text \<open>
  The ledger insert of trip \<open>n\<close> raises and SQLite rolls the transaction back (the disk
  is full); nothing else raises.
\<close>

definition disk_full_at :: "nat \<Rightarrow> nat \<Rightarrow> stmt \<Rightarrow> fault" where
  "disk_full_at n tid s =
     (if tid = n \<and> s = InsertTransactionLog then AbortsTransaction else Proceeds)"

section \<open>Evaluation of the Python floats\<close>

lemma floor_rat_numeral [simp]: "\<lfloor>numeral a / numeral b :: rat\<rfloor> = numeral a div numeral b"
  by (metis floor_divide_of_int_eq of_int_numeral)

lemma fl_minus [simp]: "fl (- x) = - fl x"
  by (simp add: fl_def)

lemmas scale_eval = normalise_def scale_up.simps scale_down.simps

lemmas round_eval = nearest_double_def round_half_even_def round_half_even_at_def pow2_def

text \<open>Doubles that stand for themselves, and the doubles of the decimals used below.\<close>

lemma normalise_values:
  "normalise (1 / 2) = (4503599627370496, - 53)"
  "normalise 1 = (4503599627370496, - 52)"
  "normalise 2 = (4503599627370496, - 51)"
  "normalise 3 = (6755399441055744, - 51)"
  "normalise 4 = (4503599627370496, - 50)"
  "normalise (9 / 2) = (5066549580791808, - 50)"
  "normalise (3 / 2) = (6755399441055744, - 52)"
  "normalise (3 / 8) = (6755399441055744, - 54)"
  "normalise (7 / 8) = (7881299347898368, - 53)"
  by (simp_all add: scale_eval)

lemma fl_exact [simp]:
  "fl 0 = 0" "fl (1 / 2) = 1 / 2" "fl 1 = 1" "fl 2 = 2" "fl 3 = 3" "fl 4 = 4"
  "fl (9 / 2) = 9 / 2" "fl (3 / 2) = 3 / 2" "fl (3 / 8) = 3 / 8"
  "fl (7 / 8) = 7 / 8"
  by (simp_all add: fl_def normalise_values round_eval)

text \<open>The doubles met when fares are computed on the seeded route.\<close>

lemma normalise_decimals:
  "normalise (22 / 25) = (198158383604301824 / 25, - 53)"
  "normalise (82145657203237847 / 9007199254740992) = (82145657203237847 / 16, - 49)"
  "normalise (21 / 10) = (23643898043695104 / 5, - 51)"
  "normalise (4728779608739021 / 2251799813685248) = (4728779608739021, - 51)"
  "normalise (4728779608739021 / 9007199254740992) = (4728779608739021, - 53)"
  "normalise (9232379236109517 / 9007199254740992) = (9232379236109517 / 2, - 52)"
  "normalise (51 / 50) = (114841790497947648 / 25, - 52)"
  "normalise (20221162326893527 / 2251799813685248) = (20221162326893527 / 4, - 49)"
  "normalise (4 / 5) = (36028797018963968 / 5, - 53)"
  "normalise (3602879701896397 / 4503599627370496) = (7205759403792794, - 53)"
  "normalise (3602879701896397 / 18014398509481984) = (7205759403792794, - 55)"
  "normalise (12610078956637389 / 18014398509481984) = (12610078956637389 / 2, - 53)"
  "normalise (7 / 10) = (31525197391593472 / 5, - 53)"
  "normalise (41883476534545613 / 4503599627370496) = (41883476534545613 / 8, - 49)"
  "normalise (197032483697459 / 281474976710656) = (6305039478318688, - 53)"
  by (simp_all add: scale_eval)

lemma fl_decimals [simp]:
  "fl (22 / 25) = 7926335344172073 / 9007199254740992"
  "fl (82145657203237847 / 9007199254740992) = 5134103575202365 / 562949953421312"
  "fl (21 / 10) = 4728779608739021 / 2251799813685248"
  "fl (4728779608739021 / 2251799813685248) = 4728779608739021 / 2251799813685248"
  "fl (4728779608739021 / 9007199254740992) = 4728779608739021 / 9007199254740992"
  "fl (9232379236109517 / 9007199254740992) = 2308094809027379 / 2251799813685248"
  "fl (51 / 50) = 2296835809958953 / 2251799813685248"
  "fl (20221162326893527 / 2251799813685248) = 2527645290861691 / 281474976710656"
  "fl (4 / 5) = 3602879701896397 / 4503599627370496"
  "fl (3602879701896397 / 4503599627370496) = 3602879701896397 / 4503599627370496"
  "fl (3602879701896397 / 18014398509481984) = 3602879701896397 / 18014398509481984"
  "fl (12610078956637389 / 18014398509481984) = 3152519739159347 / 4503599627370496"
  "fl (7 / 10) = 3152519739159347 / 4503599627370496"
  "fl (41883476534545613 / 4503599627370496) = 2617717283409101 / 281474976710656"
  "fl (197032483697459 / 281474976710656) = 197032483697459 / 281474976710656"
  by (simp_all add: fl_def normalise_decimals round_eval)

lemma normalise_more:
  "normalise (228 / 25) = (128352589380059136 / 25, - 49)"
  "normalise (449 / 50) = (126382264543084544 / 25, - 49)"
  "normalise (10) = (5629499534213120, - 49)"
  "normalise (93 / 10) = (26177172834091008 / 5, - 49)"
  by (simp_all add: scale_eval)

lemma fl_more [simp]:
  "fl (228 / 25) = 5134103575202365 / 562949953421312"
  "fl (449 / 50) = 2527645290861691 / 281474976710656"
  "fl (10) = 10"
  "fl (93 / 10) = 2617717283409101 / 281474976710656"
  by (simp_all add: fl_def normalise_more round_eval)

text \<open>The doubles met on a route with stops at 0.1 and 0.3 km.\<close>

lemma normalise_short:
  "normalise (3 / 10) = (27021597764222976 / 5, - 54)"
  "normalise (1 / 10) = (36028797018963968 / 5, - 56)"
  "normalise (5404319552844595 / 18014398509481984) = (5404319552844595, - 54)"
  "normalise (5404319552844595 / 72057594037927936) = (5404319552844595, - 56)"
  "normalise (41433116571808563 / 72057594037927936) = (41433116571808563 / 8, - 53)"
  "normalise (57 / 100) = (128352589380059136 / 25, - 53)"
  "normalise (84937888972207555 / 9007199254740992) = (84937888972207555 / 16, - 49)"
  "normalise (943 / 100) = (132715451519074304 / 25, - 49)"
  "normalise (3602879701896397 / 36028797018963968) = (7205759403792794, - 56)"
  "normalise (3602879701896397 / 144115188075855872) = (7205759403792794, - 58)"
  "normalise (75660473739824333 / 144115188075855872) = (75660473739824333 / 16, - 53)"
  "normalise (53 / 100) = (119345390125318144 / 25, - 53)"
  "normalise (42649088471198597 / 4503599627370496) = (42649088471198597 / 8, - 49)"
  "normalise (947 / 100) = (133278401472495616 / 25, - 49)"
  by (simp_all add: scale_eval)

lemma fl_short [simp]:
  "fl (3 / 10) = 5404319552844595 / 18014398509481984"
  "fl (1 / 10) = 3602879701896397 / 36028797018963968"
  "fl (5404319552844595 / 18014398509481984) = 5404319552844595 / 18014398509481984"
  "fl (5404319552844595 / 72057594037927936) = 5404319552844595 / 72057594037927936"
  "fl (41433116571808563 / 72057594037927936) = 2589569785738035 / 4503599627370496"
  "fl (57 / 100) = 5134103575202365 / 9007199254740992"
  "fl (84937888972207555 / 9007199254740992) = 1327154515190743 / 140737488355328"
  "fl (943 / 100) = 1327154515190743 / 140737488355328"
  "fl (3602879701896397 / 36028797018963968) = 3602879701896397 / 36028797018963968"
  "fl (3602879701896397 / 144115188075855872) = 3602879701896397 / 144115188075855872"
  "fl (75660473739824333 / 144115188075855872) = 4728779608739021 / 9007199254740992"
  "fl (53 / 100) = 2386907802506363 / 4503599627370496"
  "fl (42649088471198597 / 4503599627370496) = 5331136058899825 / 562949953421312"
  "fl (947 / 100) = 5331136058899825 / 562949953421312"
  by (simp_all add: fl_def normalise_short round_eval)

section \<open>Evaluation of the model on concrete databases\<close>

lemma py_float_ops [simp]:
  "fadd py_float x y = fl (x + y)" "fsub py_float x y = fl (x - y)"
  "fmul py_float x y = fl (x * y)" "fabs py_float x = \<bar>x\<bar>" "fneg py_float x = - x"
  "fround2 py_float x = py_round2 x" "flt py_float x y \<longleftrightarrow> x < y"
  by (simp_all add: py_float_def)

lemmas py_eval = py_round2_def round_half_even_def round_half_even_at_def

lemmas stmt_defs = update_wallet_balance_def insert_transaction_log_def update_trip_status_def
  insert_active_trip_def next_id_def last_stop_def settle_def execute_def

lemmas tap_defs = Let_def process_rider_tap_def with_active_trip_def tap_on_def tap_off_def
  forgot_tap_off_def finish_def

lemmas shift_defs = handle_end_of_shift_def settle_trip_def

lemmas fixture_defs = two_routes_def short_routes_def trip1_def trip2_def trip3_def shift_db_def
  long_shift_db_def no_fault_def no_faults_def
  ledger_insert_fails_def disk_full_at_def

lemmas seeded_defs = seeded_db_def seeded_riding_def funded_riding_def

lemma normalise_examples:
  "normalise (69 / 50) = (155374187144282112 / 25, - 52)"
  "normalise (4503599627370495 / 9007199254740992) = (9007199254740990, - 54)"
  "normalise (38730956795386269 / 4503599627370496) = (38730956795386269 / 8, - 49)"
  "normalise (43 / 5) = (24206847997116416 / 5, - 49)"
  by (simp_all add: scale_eval)

lemma fl_examples [simp]:
  "fl (69 / 50) = 1553741871442821 / 1125899906842624"
  "fl (4503599627370495 / 9007199254740992) = 4503599627370495 / 9007199254740992"
  "fl (38730956795386269 / 4503599627370496) = 1210342399855821 / 140737488355328"
  "fl (43 / 5) = 4841369599423283 / 562949953421312"
  by (simp_all add: fl_def normalise_examples round_eval)

text \<open>
  Values of \<open>py_float\<close> as CPython computes them: the fares 0.57, 0.53 and 1.02 for
  0.3, 0.1 and 2.1 km at 0.50 plus 0.25 per km (0.575, 0.525 and 1.025 in exact
  arithmetic); 10.0 less 0.7 twice, which is 8.600000000000001 and not the double of 8.6;
  and 1.38 - 0.88, which is 0.4999999999999999 and so less than 0.5.
\<close>

lemma py_float_values:
  "fround2 py_float (fadd py_float (1 / 2) (fmul py_float (fl (3 / 10)) (1 / 4))) = fl (57 / 100)"
  "fround2 py_float (fadd py_float (1 / 2) (fmul py_float (fl (1 / 10)) (1 / 4))) = fl (53 / 100)"
  "fround2 py_float (fadd py_float (1 / 2) (fmul py_float (fl (21 / 10)) (1 / 4))) = fl (102 / 100)"
  "fsub py_float (fsub py_float 10 (fl (7 / 10))) (fl (7 / 10)) = 1210342399855821 / 140737488355328"
  "fsub py_float (fsub py_float 10 (fl (7 / 10))) (fl (7 / 10)) \<noteq> fl (86 / 10)"
  "fsub py_float (fl (138 / 100)) (fl (88 / 100)) = 4503599627370495 / 9007199254740992"
  "flt py_float (fsub py_float (fl (138 / 100)) (fl (88 / 100))) (1 / 2)"
  by (simp_all add: py_eval)

section \<open>A forced settlement followed by a rejected tap-on\<close>

text \<open>
  C1. The claim is that the forced settlement of the old trip persists when the fresh
  tap-on is rejected for insufficient funds. On the code it does not. The rider holds
  1.00 and has an ACTIVE trip from route-stop 1 of route 1, whose last stop is 2 km away:
  the maximum fare is 0.50 + 2 * 0.25 = 1.00. The rider taps at route-stop 3 of route 2.
  The function prints that the maximum fare was charged and that the new balance is
  0.00, then rejects the tap-on (0.00 is less than the base fare 0.50) and returns at
  line 495, before the commit of line 504: the stored database is the one before the
  call, with the old trip ACTIVE, the balance 1.00 and an empty ledger.
\<close>

theorem forced_settlement_dropped_when_tap_on_rejected:
  "process_rider_tap py_float no_fault ''ann'' 3 1 (two_routes 1 [trip1])
     = ([ForgotToTapOff ''ann'', ChargedMaxFare 1 0, TappingOn ''ann'', TapOnFailed (1 / 2) 0],
        two_routes 1 [trip1])"
  by (simp add: tap_defs stmt_defs fixture_defs py_eval)

section \<open>A store failure in the middle of an end-of-shift settlement\<close>

text \<open>
  C2. The claim is that the three writes of one trip's end-of-shift settlement become
  visible together or not at all. On the code they do not when a statement raises
  after the first write and SQLite undoes that statement alone. Both riders hold 5.00;
  the ledger insert of trip 1 raises. The handler of line 551 reports the error for trip
  1 and the loop goes on to trip 2; line 553 then commits everything pending. In the
  stored database the rider of trip 1 has been debited 1.00 (balance 4.00), there is no
  ledger row for trip 1, and trip 1 is still ACTIVE.
\<close>

theorem end_of_shift_commits_partial_settlement:
  "handle_end_of_shift py_float ledger_insert_fails 1 shift_db
     = ([EndingShift, Resolving 2, ErrorResolving 1 StoreFailure, AutoCompleted ''bob'' (1 / 2)],
        shift_db
          \<lparr>user_tbl := [\<lparr>user_id = 1, username = ''ann'', wallet_balance = 4\<rparr>,
                        \<lparr>user_id = 2, username = ''bob'', wallet_balance = 9 / 2\<rparr>],
           active_trip_tbl := [trip1, trip2\<lparr>status := AUTO_COMPLETED\<rparr>],
           transaction_log_tbl :=
             [\<lparr>txn_id = 1, txn_rider_id = 2, amount = - (1 / 2), txn_type = RIDE_PAYMENT,
               related_trip_id = Some 2\<rparr>]\<rparr>)"
  by (simp add: Let_def shift_defs stmt_defs fixture_defs py_eval)

section \<open>Settlements without a funds check\<close>

text \<open>
  C10. Tap-off and end-of-shift settlement debit the fare whatever the balance is, so a
  committed settlement can leave a negative balance. A rider with 0.50 (enough to tap on
  at base fare 0.50) rides 2 km on route 1: the fare is 1.00. Tapping off at route-stop
  2 completes the trip and stores the balance -0.50; so does the end of the shift when
  the rider never taps off.
\<close>

theorem settlement_can_make_balance_negative:
  "snd (process_rider_tap py_float no_fault ''ann'' 2 1 (two_routes (1 / 2) [trip1]))
     = (two_routes (1 / 2) [trip1])
          \<lparr>user_tbl := [\<lparr>user_id = 1, username = ''ann'', wallet_balance = - (1 / 2)\<rparr>],
           active_trip_tbl := [trip1\<lparr>status := COMPLETED\<rparr>],
           transaction_log_tbl :=
             [\<lparr>txn_id = 1, txn_rider_id = 1, amount = - 1, txn_type = RIDE_PAYMENT,
               related_trip_id = Some 1\<rparr>]\<rparr>
   \<and> snd (handle_end_of_shift py_float no_faults 1 (two_routes (1 / 2) [trip1]))
     = (two_routes (1 / 2) [trip1])
          \<lparr>user_tbl := [\<lparr>user_id = 1, username = ''ann'', wallet_balance = - (1 / 2)\<rparr>],
           active_trip_tbl := [trip1\<lparr>status := AUTO_COMPLETED\<rparr>],
           transaction_log_tbl :=
             [\<lparr>txn_id = 1, txn_rider_id = 1, amount = - 1, txn_type = RIDE_PAYMENT,
               related_trip_id = Some 1\<rparr>]\<rparr>"
  by (simp add: tap_defs shift_defs stmt_defs fixture_defs py_eval)

section \<open>Lookups\<close>

lemma find_SomeD: "find P xs = Some x \<Longrightarrow> x \<in> set xs \<and> P x"
  by (induction xs) (auto split: if_splits)


lemma finish_cases:
  "snd (finish stored r) = stored \<or> (\<exists>w. snd r = Commit w \<and> snd (finish stored r) = w)"
  by (cases "snd r") (simp_all add: finish_def)

text \<open>How a settlement ends: all three writes, a rollback, nothing, one write or two.\<close>

lemma settle_cases:
  assumes "settle A raises b uid fare st tid stored w = (e, w')"
  shows "(e = None \<and> raises UpdateWalletBalance = Proceeds \<and>
            raises InsertTransactionLog = Proceeds \<and> raises UpdateTripStatus = Proceeds \<and>
            w' = update_trip_status st tid
                   (insert_transaction_log uid (fneg A fare) RIDE_PAYMENT (Some tid)
                      (update_wallet_balance b uid w))) \<or>
         (e = Some StoreFailure \<and> (\<exists>s. raises s = AbortsTransaction) \<and> w' = stored) \<or>
         (e = Some StoreFailure \<and> w' = w) \<or>
         (e = Some StoreFailure \<and> raises InsertTransactionLog = AbortsStatement \<and>
            w' = update_wallet_balance b uid w) \<or>
         (e = Some StoreFailure \<and> raises InsertTransactionLog = Proceeds \<and>
            w' = insert_transaction_log uid (fneg A fare) RIDE_PAYMENT (Some tid)
                   (update_wallet_balance b uid w))"
  using assms
  by (cases "raises UpdateWalletBalance"; cases "raises InsertTransactionLog";
      cases "raises UpdateTripStatus") (auto simp: settle_def execute_def)

lemma settle_None:
  assumes "settle A raises b uid fare st tid stored w = (None, w')"
  shows "w' = update_trip_status st tid
                (insert_transaction_log uid (fneg A fare) RIDE_PAYMENT (Some tid)
                   (update_wallet_balance b uid w))"
  using settle_cases[OF assms] by auto


section \<open>Idempotent tap at the tap-on stop\<close>

text \<open>
  C7. When the rider has an active trip and the current route-stop is the trip's tap-on
  route-stop, the tap is ignored: the output is the "already tapped on" line and the
  stored database (ledger, balances, trips) is the one before the call, whatever the
  arithmetic and whatever the store would do on a write.
\<close>

theorem same_stop_tap_is_noop:
  assumes "find (\<lambda>u. username u = name) (user_tbl stored) = Some rider"
    and "find (\<lambda>s. route_stop_id s = cur) (route_stop_tbl stored) = Some current_stop_data"
    and "find (\<lambda>t. rider_id t = user_id rider \<and> status t = ACTIVE) (active_trip_tbl stored)
           = Some trip"
    and "tap_on_route_stop_id trip = route_stop_id current_stop_data"
  shows "process_rider_tap A raises name cur shuttle stored = ([AlreadyTappedOn name], stored)"
proof -
  have "username rider = name"
    using assms(1) by (auto simp: find_Some_iff)
  then show ?thesis
    using assms by (simp add: process_rider_tap_def with_active_trip_def finish_def)
qed

theorem same_stop_tap_is_noop_witness:
  "process_rider_tap py_float no_fault ''ann'' 1 1 (two_routes 1 [trip1])
     = ([AlreadyTappedOn ''ann''], two_routes 1 [trip1])"
  by (rule same_stop_tap_is_noop
        [where rider = "\<lparr>user_id = 1, username = ''ann'', wallet_balance = 1\<rparr>"
           and trip = trip1
           and current_stop_data = "\<lparr>route_stop_id = 1, rs_route_id = 1, rs_stop_id = 1,
                                      stop_order = 1, distance_from_start = 0\<rparr>"])
     (simp_all add: fixture_defs)

section \<open>Tap-off on the route of the tap-on stop\<close>



section \<open>Tap-on and the base fare\<close>

text \<open>
  C8. The rider exists and has no ACTIVE trip, and the route of the current route-stop
  exists. When the balance is less than the route's base fare (the comparison of line
  493) the tap is rejected (the "insufficient funds" line) and the stored database is the
  one before the call: no trip, no ledger row, the same balance, whatever the store
  would do on a write. When it is not less and the insert does not raise, one ACTIVE
  trip of the rider on this shuttle from the current route-stop is appended, and nothing
  else changes: no money moves.
\<close>

theorem tap_on_checks_base_fare:
  assumes rider: "find (\<lambda>u. username u = name) (user_tbl stored) = Some rider"
    and cur: "find (\<lambda>s. route_stop_id s = cur) (route_stop_tbl stored) = Some current_stop"
    and route: "find (\<lambda>r. route_id r = rs_route_id current_stop) (route_tbl stored) = Some route"
    and no_trip: "find (\<lambda>t. rider_id t = user_id rider \<and> status t = ACTIVE) (active_trip_tbl stored)
           = None"
  shows "(flt A (wallet_balance rider) (base_fare route) \<longrightarrow>
           process_rider_tap A raises name cur shuttle stored
             = ([TappingOn name, TapOnFailed (base_fare route) (wallet_balance rider)], stored))
    \<and> (\<not> flt A (wallet_balance rider) (base_fare route) \<longrightarrow>
           process_rider_tap A no_fault name cur shuttle stored
             = ([TappingOn name, TapOnSuccessful],
                stored\<lparr>active_trip_tbl := active_trip_tbl stored @
                   [\<lparr>trip_id = next_id (map trip_id (active_trip_tbl stored)),
                     rider_id = user_id rider, shuttle_id = shuttle,
                     tap_on_route_stop_id = cur, status = ACTIVE\<rparr>]\<rparr>))"
proof -
  have name: "username rider = name"
    using rider by (auto simp: find_Some_iff)
  have id: "route_stop_id current_stop = cur"
    using cur by (auto simp: find_Some_iff)
  show ?thesis
    using assms name id
    by (simp add: tap_defs insert_active_trip_def execute_def no_fault_def)
qed

theorem tap_on_checks_base_fare_witness:
  "process_rider_tap py_float no_fault ''ann'' 1 7 (two_routes (fl (3 / 10)) [])
     = ([TappingOn ''ann'', TapOnFailed (1 / 2) (fl (3 / 10))], two_routes (fl (3 / 10)) [])
   \<and> process_rider_tap py_float no_fault ''ann'' 1 7 (two_routes (1 / 2) [])
     = ([TappingOn ''ann'', TapOnSuccessful],
        two_routes (1 / 2)
          [\<lparr>trip_id = 1, rider_id = 1, shuttle_id = 7, tap_on_route_stop_id = 1,
            status = ACTIVE\<rparr>])"
proof -
  let ?stop1 = "\<lparr>route_stop_id = 1, rs_route_id = 1, rs_stop_id = 1, stop_order = 1,
                 distance_from_start = 0 :: rat\<rparr>"
  let ?route = "\<lparr>route_id = 1, base_fare = 1 / 2 :: rat, price_per_km = 1 / 4\<rparr>"
  have h1: "find (\<lambda>u. username u = ''ann'') (user_tbl (two_routes b []))
              = Some \<lparr>user_id = 1, username = ''ann'', wallet_balance = b\<rparr>" for b
    by (simp add: two_routes_def)
  have h2: "find (\<lambda>s. route_stop_id s = 1) (route_stop_tbl (two_routes b [])) = Some ?stop1" for b
    by (simp add: two_routes_def)
  have h3: "find (\<lambda>r. route_id r = rs_route_id ?stop1) (route_tbl (two_routes b [])) = Some ?route"
    for b
    by (simp add: two_routes_def)
  have h4: "find (\<lambda>t. rider_id t = user_id \<lparr>user_id = 1, username = ''ann'', wallet_balance = b\<rparr>
                     \<and> status t = ACTIVE) (active_trip_tbl (two_routes b [])) = None" for b
    by (simp add: two_routes_def)
  show ?thesis
    using tap_on_checks_base_fare [OF h1 h2 h3 h4, of py_float "fl (3 / 10)" no_fault 7]
      tap_on_checks_base_fare [OF h1 h2 h3 h4, of py_float "1 / 2" no_fault 7]
    by (simp add: next_id_def two_routes_def)
qed

section \<open>At most one ACTIVE trip per rider\<close>

lemma active_trip_tbl_simps [simp]:
  "active_trip_tbl (update_wallet_balance b uid w) = active_trip_tbl w"
  "active_trip_tbl (insert_transaction_log uid amt ty t w) = active_trip_tbl w"
  "active_trip_tbl (update_trip_status st tid w)
     = map (\<lambda>t. if trip_id t = tid then t\<lparr>status := st\<rparr> else t) (active_trip_tbl w)"
  "active_trip_tbl (insert_active_trip uid sh rs st w)
     = active_trip_tbl w @
         [\<lparr>trip_id = next_id (map trip_id (active_trip_tbl w)), rider_id = uid,
           shuttle_id = sh, tap_on_route_stop_id = rs, status = st\<rparr>]"
  by (simp_all add: update_trip_status_def insert_active_trip_def insert_transaction_log_def
        update_wallet_balance_def)

text \<open>Closing a trip removes it from the ACTIVE trips and touches no other.\<close>

lemma active_after_close:
  "st \<noteq> ACTIVE \<Longrightarrow>
     filter (\<lambda>t. status t = ACTIVE) (map (\<lambda>t. if trip_id t = tid then t\<lparr>status := st\<rparr> else t) ts)
       = filter (\<lambda>t. trip_id t \<noteq> tid) (filter (\<lambda>t. status t = ACTIVE) ts)"
  by (induction ts) auto

lemma one_active_close:
  assumes st: "st \<noteq> ACTIVE" and inv: "one_active_trip_per_rider w"
  shows "one_active_trip_per_rider (update_trip_status st tid w)"
proof -
  have "distinct (map rider_id (filter (\<lambda>t. trip_id t \<noteq> tid)
          (filter (\<lambda>t. status t = ACTIVE) (active_trip_tbl w))))"
    using inv unfolding one_active_trip_per_rider_def by (rule distinct_map_filter)
  then show ?thesis
    using st by (simp add: one_active_trip_per_rider_def active_after_close del: filter_filter)
qed

lemma settle_trips:
  assumes "settle A raises b uid fare st tid stored w = (e, w')"
  shows "active_trip_tbl w' = active_trip_tbl w \<or> w' = stored \<or>
         (e = None \<and> active_trip_tbl w' = active_trip_tbl (update_trip_status st tid w))"
  using settle_cases[OF assms] by auto

lemma one_active_settle:
  assumes "settle A raises b uid fare st tid stored w = (e, w')" and "st \<noteq> ACTIVE"
    and "one_active_trip_per_rider w" and "one_active_trip_per_rider stored"
  shows "one_active_trip_per_rider w'"
  using settle_trips[OF assms(1)] one_active_close[OF assms(2,3), of tid] assms(3,4)
  by (auto simp: one_active_trip_per_rider_def)

text \<open>After the rider's one ACTIVE trip is closed the rider has none.\<close>

lemma no_active_after_close:
  assumes inv: "one_active_trip_per_rider w"
    and trip: "trip \<in> set (active_trip_tbl w)" "status trip = ACTIVE"
    and st: "st \<noteq> ACTIVE"
  shows "rider_id trip \<notin> rider_id ` set (filter (\<lambda>t. status t = ACTIVE)
           (active_trip_tbl (update_trip_status st (trip_id trip) w)))"
proof
  assume "rider_id trip \<in> rider_id ` set (filter (\<lambda>t. status t = ACTIVE)
           (active_trip_tbl (update_trip_status st (trip_id trip) w)))"
  then obtain t where t: "t \<in> set (filter (\<lambda>t. status t = ACTIVE) (active_trip_tbl w))"
      "trip_id t \<noteq> trip_id trip" "rider_id t = rider_id trip"
    using st by (auto simp: active_after_close)
  have "inj_on rider_id (set (filter (\<lambda>t. status t = ACTIVE) (active_trip_tbl w)))"
    using inv by (simp add: one_active_trip_per_rider_def distinct_map)
  moreover have "trip \<in> set (filter (\<lambda>t. status t = ACTIVE) (active_trip_tbl w))"
    using trip by simp
  ultimately have "t = trip"
    using t(1,3) by (auto dest: inj_onD)
  then show False using t(2) by simp
qed

lemma tap_on_commit:
  "snd (tap_on A raises rider rd cs sh out stored w) = Commit w' \<Longrightarrow>
     w' = insert_active_trip (user_id rider) sh (route_stop_id cs) ACTIVE w"
  by (cases "raises InsertActiveTrip")
     (auto simp: tap_on_def Let_def execute_def split: option.splits if_splits)

lemma one_active_tap_on:
  assumes "snd (tap_on A raises rider rd cs sh out stored w) = Commit w'"
    and "one_active_trip_per_rider w"
    and "user_id rider \<notin> rider_id ` set (filter (\<lambda>t. status t = ACTIVE) (active_trip_tbl w))"
  shows "one_active_trip_per_rider w'"
  using assms(2,3) unfolding tap_on_commit[OF assms(1)]
  by (auto simp: one_active_trip_per_rider_def)

lemma tap_off_commit:
  "snd (tap_off A raises rider rd ts cs trip stored w) = Commit w' \<Longrightarrow>
     \<exists>b f. settle A raises b (user_id rider) f COMPLETED (trip_id trip) stored w = (None, w')"
  by (auto simp: tap_off_def Let_def split: option.splits prod.splits)

lemma one_active_tap_off:
  assumes "snd (tap_off A raises rider rd ts cs trip stored w) = Commit w'"
    and "one_active_trip_per_rider w"
  shows "one_active_trip_per_rider w'"
proof -
  from tap_off_commit[OF assms(1)] obtain b f where
    "settle A raises b (user_id rider) f COMPLETED (trip_id trip) stored w = (None, w')"
    by blast
  from settle_None[OF this] show ?thesis
    using one_active_close[OF _ assms(2), of COMPLETED "trip_id trip"]
    by (simp add: one_active_trip_per_rider_def)
qed

lemma find_None_active:
  "find (\<lambda>t. rider_id t = uid \<and> status t = ACTIVE) ts = None \<Longrightarrow>
     uid \<notin> rider_id ` set (filter (\<lambda>t. status t = ACTIVE) ts)"
  by (auto simp: find_None_iff)

lemma forgot_tap_off_commit:
  "snd (forgot_tap_off A raises rider rd ts cs trip sh stored w) = Commit w' \<Longrightarrow>
     \<exists>b f w1 rider' out1.
       settle A raises b (user_id rider) f AUTO_COMPLETED (trip_id trip) stored w = (None, w1) \<and>
       find (\<lambda>u. user_id u = user_id rider) (user_tbl w1) = Some rider' \<and>
       snd (tap_on A raises rider' rd cs sh out1 stored w1) = Commit w'"
  by (simp add: forgot_tap_off_def Let_def split: option.splits prod.splits) blast

lemma one_active_forgot_tap_off:
  assumes run: "snd (forgot_tap_off A raises rider rd ts cs trip sh stored w) = Commit w'"
    and inv: "one_active_trip_per_rider w"
    and trip: "trip \<in> set (active_trip_tbl w)" "status trip = ACTIVE"
      "rider_id trip = user_id rider"
  shows "one_active_trip_per_rider w'"
proof -
  from forgot_tap_off_commit[OF run] obtain b f w1 rider' out1 where
    settle: "settle A raises b (user_id rider) f AUTO_COMPLETED (trip_id trip) stored w = (None, w1)"
    and rider': "find (\<lambda>u. user_id u = user_id rider) (user_tbl w1) = Some rider'"
    and tap: "snd (tap_on A raises rider' rd cs sh out1 stored w1) = Commit w'"
    by blast
  have trips1: "active_trip_tbl w1 = active_trip_tbl (update_trip_status AUTO_COMPLETED (trip_id trip) w)"
    using settle_None[OF settle] by simp
  have "one_active_trip_per_rider (update_trip_status AUTO_COMPLETED (trip_id trip) w)"
    using inv by (simp add: one_active_close)
  then have inv1: "one_active_trip_per_rider w1"
    by (simp add: one_active_trip_per_rider_def trips1)
  have "user_id rider' = user_id rider"
    using find_SomeD[OF rider'] by simp
  then have "user_id rider' \<notin> rider_id ` set (filter (\<lambda>t. status t = ACTIVE) (active_trip_tbl w1))"
    using no_active_after_close[OF inv trip(1,2), of AUTO_COMPLETED] trip(3)
    by (simp only: trips1) simp
  with tap inv1 show ?thesis
    by (rule one_active_tap_on)
qed

lemma one_active_with_active_trip:
  assumes "snd (with_active_trip A raises rider rd cs trip sh stored w) = Commit w'"
    and "one_active_trip_per_rider w"
    and "trip \<in> set (active_trip_tbl w)" "status trip = ACTIVE" "rider_id trip = user_id rider"
  shows "one_active_trip_per_rider w'"
  using assms
  by (auto simp: with_active_trip_def Let_def split: option.splits if_splits
        dest: one_active_tap_off one_active_forgot_tap_off)

lemma one_active_process_rider_tap:
  assumes "one_active_trip_per_rider stored"
  shows "one_active_trip_per_rider (snd (process_rider_tap A raises name cur sh stored))"
proof -
  define body where "body =
       (case find (\<lambda>u. username u = name) (user_tbl stored) of
          None \<Rightarrow> ([RiderNotFound name], Return)
        | Some rider \<Rightarrow>
            (case find (\<lambda>s. route_stop_id s = cur) (route_stop_tbl stored) of
               None \<Rightarrow> ([], Raise TypeError)
             | Some current_stop_data \<Rightarrow>
                 (let route_data = find (\<lambda>r. route_id r = rs_route_id current_stop_data)
                                     (route_tbl stored);
                      active_trip = find (\<lambda>t. rider_id t = user_id rider \<and> status t = ACTIVE)
                                      (active_trip_tbl stored)
                  in (case active_trip of
                        None \<Rightarrow> tap_on A raises rider route_data current_stop_data sh []
                                  stored stored
                      | Some trip \<Rightarrow>
                          with_active_trip A raises rider route_data current_stop_data trip
                            sh stored stored))))"
  have run: "process_rider_tap A raises name cur sh stored = finish stored body"
    by (simp add: process_rider_tap_def body_def)
  have "one_active_trip_per_rider w" if "snd body = Commit w" for w
    using that assms
    by (auto simp: body_def Let_def split: option.splits
          dest: one_active_tap_on[OF _ _ find_None_active] one_active_with_active_trip
                find_SomeD)
  then show ?thesis
    using finish_cases[of stored body] assms by (auto simp: run)
qed

lemma one_active_settle_trip:
  "one_active_trip_per_rider stored \<Longrightarrow> one_active_trip_per_rider w \<Longrightarrow>
     one_active_trip_per_rider (snd (settle_trip A raises stored trip w))"
  by (auto simp: settle_trip_def Let_def split: option.splits prod.splits
        dest: one_active_settle)

lemma one_active_resolve_trips:
  "one_active_trip_per_rider stored \<Longrightarrow> one_active_trip_per_rider w \<Longrightarrow>
     one_active_trip_per_rider (snd (resolve_trips A raises stored ts w))"
  by (induction ts arbitrary: w) (simp_all add: Let_def one_active_settle_trip)

lemma one_active_handle_end_of_shift:
  "one_active_trip_per_rider stored \<Longrightarrow>
     one_active_trip_per_rider (snd (handle_end_of_shift A raises sh stored))"
  by (simp add: handle_end_of_shift_def Let_def one_active_resolve_trips)

text \<open>
  C6. At most one trip per rider is ACTIVE. Both functions keep this, committed or not,
  whatever the arithmetic and whatever the store does, a rollback of the open
  transaction included: a tap opens an ACTIVE trip only for a rider without one, or after
  the rider's ACTIVE trip was closed by the forced settlement of the same tap; tap-off
  and the end of a shift only close trips. The trip table starts empty, so the property
  holds in every stored database the program reaches.
\<close>

theorem at_most_one_active_trip_per_rider:
  "(one_active_trip_per_rider stored \<longrightarrow>
      one_active_trip_per_rider (snd (process_rider_tap A raises name cur shuttle stored)) \<and>
      one_active_trip_per_rider (snd (handle_end_of_shift A faults shuttle stored))) \<and>
   (reachable stored \<longrightarrow> one_active_trip_per_rider stored)"
proof -
  have "one_active_trip_per_rider w" if "reachable w" for w :: "'a db"
    using that
  proof (induction rule: reachable.induct)
    case (initial w)
    then show ?case by (simp add: one_active_trip_per_rider_def)
  next
    case (tap w A raises name cur shuttle)
    then show ?case by (simp add: one_active_process_rider_tap)
  next
    case (end_of_shift w A faults shuttle)
    then show ?case by (simp add: one_active_handle_end_of_shift)
  next
    case (other w w')
    then show ?case by (simp add: one_active_trip_per_rider_def)
  qed
  then show ?thesis
    by (simp add: one_active_process_rider_tap one_active_handle_end_of_shift)
qed

theorem at_most_one_active_trip_per_rider_witness:
  "one_active_trip_per_rider (two_routes 2 [trip1]) \<and>
   one_active_trip_per_rider
     (snd (process_rider_tap py_float no_fault ''ann'' 3 1 (two_routes 2 [trip1]))) \<and>
   one_active_trip_per_rider
     (snd (handle_end_of_shift py_float (disk_full_at 1) 1 (two_routes 2 [trip1]))) \<and>
   reachable (snd (process_rider_tap py_float no_fault ''rider1'' 1 1 seeded_db)) \<and>
   one_active_trip_per_rider (snd (process_rider_tap py_float no_fault ''rider1'' 1 1 seeded_db))"
proof -
  have a: "one_active_trip_per_rider (two_routes 2 [trip1])"
    by (simp add: one_active_trip_per_rider_def two_routes_def trip1_def)
  have "reachable seeded_db"
    by (rule reachable.initial) (simp add: seeded_db_def)
  then have b: "reachable (snd (process_rider_tap py_float no_fault ''rider1'' 1 1 seeded_db))"
    by (rule reachable.tap)
  show ?thesis
    using a b
      at_most_one_active_trip_per_rider
        [of "two_routes 2 [trip1]" py_float no_fault "''ann''" 3 1 "disk_full_at 1"]
      at_most_one_active_trip_per_rider
        [of "snd (process_rider_tap py_float no_fault ''rider1'' 1 1 seeded_db)"]
    by blast
qed

section \<open>Wallet balances and the ledger\<close>

lemma ledger_sum_simps [simp]:
  "ledger_sum A z (update_wallet_balance b uid w) x = ledger_sum A z w x"
  "ledger_sum A z (update_trip_status st tid w) x = ledger_sum A z w x"
  "ledger_sum A z (insert_active_trip uid sh rs st w) x = ledger_sum A z w x"
  "ledger_sum A z (insert_transaction_log uid amt ty t w) x
     = (if x = uid then fadd A (ledger_sum A z w x) amt else ledger_sum A z w x)"
  by (simp_all add: ledger_sum_def update_wallet_balance_def update_trip_status_def
        insert_active_trip_def insert_transaction_log_def)

lemma user_tbl_simps [simp]:
  "user_tbl (update_trip_status st tid w) = user_tbl w"
  "user_tbl (insert_active_trip uid sh rs st w) = user_tbl w"
  "user_tbl (insert_transaction_log uid amt ty t w) = user_tbl w"
  "user_tbl (update_wallet_balance b uid w)
     = map (\<lambda>u. if user_id u = uid then u\<lparr>wallet_balance := b\<rparr> else u) (user_tbl w)"
  by (simp_all add: update_trip_status_def insert_active_trip_def insert_transaction_log_def
        update_wallet_balance_def)

lemma balanced_update_trip_status:
  "rider_balanced A z uid (update_trip_status st tid w) = rider_balanced A z uid w"
  by (simp add: rider_balanced_def)

lemma balanced_insert_active_trip:
  "rider_balanced A z uid (insert_active_trip x sh rs st w) = rider_balanced A z uid w"
  by (simp add: rider_balanced_def)

text \<open>
  The debit and its ledger row together: the new balance \<^verbatim>\<open>balance - fare\<close> is the old
  sum plus the amount \<^verbatim>\<open>-fare\<close>, for an arithmetic in which \<^verbatim>\<open>x - y\<close> is
  \<^verbatim>\<open>x + (-y)\<close>.
\<close>

lemma balanced_debit:
  assumes sub: "sub_is_add_neg A"
    and inv: "rider_balanced A z uid w" and r: "r \<in> set (user_tbl w)"
  shows "rider_balanced A z uid
           (insert_transaction_log (user_id r) (fneg A fare) ty tid
              (update_wallet_balance (fsub A (wallet_balance r) fare) (user_id r) w))"
proof (cases "uid = user_id r")
  case True
  then have "wallet_balance r = ledger_sum A z w uid"
    using inv r by (simp add: rider_balanced_def)
  then show ?thesis
    using True sub by (auto simp: rider_balanced_def sub_is_add_neg_def)
next
  case False
  then show ?thesis
    using inv by (auto simp: rider_balanced_def)
qed

lemma settle_balanced:
  assumes run: "settle A raises (fsub A (wallet_balance r) fare) (user_id r) fare st tid stored w
             = (e, w')"
    and sub: "sub_is_add_neg A"
    and ins: "raises InsertTransactionLog \<noteq> AbortsStatement"
    and inv: "rider_balanced A z uid w" "rider_balanced A z uid stored"
    and r: "r \<in> set (user_tbl w)"
  shows "rider_balanced A z uid w'"
  using settle_cases[OF run] ins inv balanced_debit[OF sub inv(1) r, of fare RIDE_PAYMENT "Some tid"]
  by (auto simp: balanced_update_trip_status)

lemma settle_commit_balanced:
  assumes run: "settle A raises (fsub A (wallet_balance r) fare) (user_id r) fare st tid stored w
             = (None, w')"
    and sub: "sub_is_add_neg A"
    and inv: "rider_balanced A z uid w" and r: "r \<in> set (user_tbl w)"
  shows "rider_balanced A z uid w'"
  using balanced_debit[OF sub inv r, of fare RIDE_PAYMENT "Some tid"]
  unfolding settle_None[OF run] by (simp add: balanced_update_trip_status)

lemma tap_on_balanced:
  "snd (tap_on A raises rider rd cs sh out stored w) = Commit w' \<Longrightarrow> rider_balanced A z uid w \<Longrightarrow>
     rider_balanced A z uid w'"
  by (drule tap_on_commit) (simp add: balanced_insert_active_trip)

lemma tap_off_balanced:
  "snd (tap_off A raises rider rd ts cs trip stored w) = Commit w' \<Longrightarrow>
     sub_is_add_neg A \<Longrightarrow>
     rider \<in> set (user_tbl w) \<Longrightarrow> rider_balanced A z uid w \<Longrightarrow> rider_balanced A z uid w'"
  by (auto simp: tap_off_def Let_def split: option.splits prod.splits
        dest: settle_commit_balanced)

lemma forgot_tap_off_balanced:
  "snd (forgot_tap_off A raises rider rd ts cs trip sh stored w) = Commit w' \<Longrightarrow>
     sub_is_add_neg A \<Longrightarrow>
     rider \<in> set (user_tbl w) \<Longrightarrow> rider_balanced A z uid w \<Longrightarrow> rider_balanced A z uid w'"
  by (auto simp: forgot_tap_off_def Let_def split: option.splits prod.splits
        dest!: settle_commit_balanced dest: tap_on_balanced)

lemma with_active_trip_balanced:
  "snd (with_active_trip A raises rider rd cs trip sh stored w) = Commit w' \<Longrightarrow>
     sub_is_add_neg A \<Longrightarrow>
     rider \<in> set (user_tbl w) \<Longrightarrow> rider_balanced A z uid w \<Longrightarrow> rider_balanced A z uid w'"
  by (auto simp: with_active_trip_def Let_def split: option.splits if_splits
        dest: tap_off_balanced forgot_tap_off_balanced)

lemma process_rider_tap_balanced:
  assumes sub: "sub_is_add_neg A"
    and inv: "rider_balanced A z uid stored"
  shows "rider_balanced A z uid (snd (process_rider_tap A raises name cur sh stored))"
proof -
  define body where "body =
       (case find (\<lambda>u. username u = name) (user_tbl stored) of
          None \<Rightarrow> ([RiderNotFound name], Return)
        | Some rider \<Rightarrow>
            (case find (\<lambda>s. route_stop_id s = cur) (route_stop_tbl stored) of
               None \<Rightarrow> ([], Raise TypeError)
             | Some current_stop_data \<Rightarrow>
                 (let route_data = find (\<lambda>r. route_id r = rs_route_id current_stop_data)
                                     (route_tbl stored);
                      active_trip = find (\<lambda>t. rider_id t = user_id rider \<and> status t = ACTIVE)
                                      (active_trip_tbl stored)
                  in (case active_trip of
                        None \<Rightarrow> tap_on A raises rider route_data current_stop_data sh []
                                  stored stored
                      | Some trip \<Rightarrow>
                          with_active_trip A raises rider route_data current_stop_data trip
                            sh stored stored))))"
  have run: "process_rider_tap A raises name cur sh stored = finish stored body"
    by (simp add: process_rider_tap_def body_def)
  have "rider_balanced A z uid w" if "snd body = Commit w" for w
    using that sub inv
    by (auto simp: body_def Let_def split: option.splits
          dest: tap_on_balanced with_active_trip_balanced find_SomeD)
  then show ?thesis
    using finish_cases[of stored body] inv by (auto simp: run)
qed

lemma settle_trip_balanced:
  assumes "sub_is_add_neg A"
    and "raises (trip_id trip) InsertTransactionLog \<noteq> AbortsStatement"
    and "rider_balanced A z uid stored" and "rider_balanced A z uid w"
  shows "rider_balanced A z uid (snd (settle_trip A raises stored trip w))"
  using assms
  by (auto simp: settle_trip_def Let_def split: option.splits prod.splits
        dest: settle_balanced find_SomeD)

lemma resolve_trips_balanced:
  "sub_is_add_neg A \<Longrightarrow>
   \<forall>tid. raises tid InsertTransactionLog \<noteq> AbortsStatement \<Longrightarrow>
   rider_balanced A z uid stored \<Longrightarrow> rider_balanced A z uid w \<Longrightarrow>
     rider_balanced A z uid (snd (resolve_trips A raises stored ts w))"
  by (induction ts arbitrary: w) (simp_all add: Let_def settle_trip_balanced)

lemma handle_end_of_shift_balanced:
  "sub_is_add_neg A \<Longrightarrow>
   \<forall>tid. raises tid InsertTransactionLog \<noteq> AbortsStatement \<Longrightarrow>
   rider_balanced A z uid stored \<Longrightarrow>
     rider_balanced A z uid (snd (handle_end_of_shift A raises sh stored))"
  by (simp add: handle_end_of_shift_def Let_def resolve_trips_balanced)

lemma balance_invariant_iff: "balance_invariant A z w \<longleftrightarrow> (\<forall>uid. rider_balanced A z uid w)"
  by (auto simp: balance_invariant_def rider_balanced_def)

text \<open>
  C5, the claim as stated: every wallet balance equals the sum of the rider's ledger
  amounts at every observable point, and the balance change of an operation equals the
  sum of the ledger amounts it appends. Neither holds. In the database that
  \<^verbatim>\<open>seed_data\<close> stores \<^verbatim>\<open>rider1\<close> holds 10.0 and the ledger is empty. And for
  \<^verbatim>\<open>rider2\<close>, whose balance 10.0 is the sum of the ledger, a tap-off after 0.8 km
  stores the balance 10.0 - 0.7 = 9.3 and the ledger amount -0.7, as doubles: the balance
  has changed by -0.6999999999999993, which is not the amount appended.
\<close>

theorem balance_is_not_ledger_sum:
  "\<not> balance_invariant py_float 0 seeded_db
   \<and> balances (snd (process_rider_tap py_float no_fault ''rider2'' 2 1 funded_riding)) 4
       = [fl (93 / 10)]
   \<and> map amount (appended funded_riding
                   (snd (process_rider_tap py_float no_fault ''rider2'' 2 1 funded_riding)))
       = [- fl (7 / 10)]
   \<and> fl (93 / 10) - 10 \<noteq> - fl (7 / 10)
   \<and> fsub py_float (fl (93 / 10)) 10 \<noteq> fneg py_float (fl (7 / 10))"
  by (simp add: balance_invariant_def rider_balanced_def ledger_sum_def balances_def appended_def
        tap_defs stmt_defs seeded_defs no_fault_def py_eval)

text \<open>
  C5, amended. The sum of a rider's ledger amounts is taken in ledger order with the
  addition of the program, from zero, and the arithmetic is one in which \<^verbatim>\<open>x - y\<close>
  is \<^verbatim>\<open>x + (-y)\<close>, as IEEE arithmetic is. For every rider whose balance is the sum of
  the rider's ledger amounts before the operation, it is so after the operation: after a
  tap, committed or not and whatever the store does, and after the end of a shift in
  which no ledger insert raises leaving the balance update in place. So the invariant of
  the claim holds after the operation when it held before.
\<close>

theorem settlement_keeps_balance_equal_to_ledger_sum:
  assumes "sub_is_add_neg A"
  shows "(rider_balanced A z uid stored \<longrightarrow>
      rider_balanced A z uid (snd (process_rider_tap A raises name cur shuttle stored)) \<and>
      ((\<forall>tid. faults tid InsertTransactionLog \<noteq> AbortsStatement) \<longrightarrow>
         rider_balanced A z uid (snd (handle_end_of_shift A faults shuttle stored)))) \<and>
   (balance_invariant A z stored \<longrightarrow>
      balance_invariant A z (snd (process_rider_tap A raises name cur shuttle stored)) \<and>
      ((\<forall>tid. faults tid InsertTransactionLog \<noteq> AbortsStatement) \<longrightarrow>
         balance_invariant A z (snd (handle_end_of_shift A faults shuttle stored))))"
  using assms
  by (simp add: balance_invariant_iff process_rider_tap_balanced handle_end_of_shift_balanced)

text \<open>
  An instance on doubles, for \<^verbatim>\<open>rider2\<close>: after the tap-off of 0.7 the balance and
  the ledger sum are both the double of 9.3, and after an end of shift that charges the
  maximum fare 1.02, with the disk full at another trip id, both are the double of 8.98.
  And an instance in which every balance is the ledger sum before and after: a rider
  with 0.0 and no ledger row, charged 1.00.
\<close>

theorem settlement_keeps_balance_equal_to_ledger_sum_witness:
  "sub_is_add_neg py_float
   \<and> rider_balanced py_float 0 4 funded_riding
   \<and> rider_balanced py_float 0 4
       (snd (process_rider_tap py_float no_fault ''rider2'' 2 1 funded_riding))
   \<and> ledger_sum py_float 0
       (snd (process_rider_tap py_float no_fault ''rider2'' 2 1 funded_riding)) 4 = fl (93 / 10)
   \<and> rider_balanced py_float 0 4 (snd (handle_end_of_shift py_float (disk_full_at 2) 1 funded_riding))
   \<and> ledger_sum py_float 0
       (snd (handle_end_of_shift py_float (disk_full_at 2) 1 funded_riding)) 4 = fl (898 / 100)
   \<and> balance_invariant py_float 0 (two_routes 0 [trip1])
   \<and> balance_invariant py_float 0
       (snd (process_rider_tap py_float no_fault ''ann'' 2 1 (two_routes 0 [trip1])))
   \<and> balance_invariant py_float 0
       (snd (handle_end_of_shift py_float (disk_full_at 2) 1 (two_routes 0 [trip1])))"
proof -
  have a: "sub_is_add_neg py_float"
    by (simp add: sub_is_add_neg_def)
  have b: "rider_balanced py_float 0 4 funded_riding"
    by (simp add: rider_balanced_def ledger_sum_def seeded_defs)
  have c: "\<forall>tid. disk_full_at 2 tid InsertTransactionLog \<noteq> AbortsStatement"
    by (simp add: disk_full_at_def)
  have d: "ledger_sum py_float 0
       (snd (process_rider_tap py_float no_fault ''rider2'' 2 1 funded_riding)) 4 = fl (93 / 10)"
    by (simp add: ledger_sum_def tap_defs stmt_defs seeded_defs no_fault_def py_eval)
  have e: "ledger_sum py_float 0
       (snd (handle_end_of_shift py_float (disk_full_at 2) 1 funded_riding)) 4 = fl (898 / 100)"
    by (simp add: ledger_sum_def Let_def shift_defs stmt_defs seeded_defs disk_full_at_def py_eval)
  have f: "balance_invariant py_float 0 (two_routes 0 [trip1])"
    by (simp add: balance_invariant_def rider_balanced_def ledger_sum_def two_routes_def)
  show ?thesis
    using a b c d e f
      settlement_keeps_balance_equal_to_ledger_sum
        [OF a, of 0 4 funded_riding no_fault "''rider2''" 2 1 "disk_full_at 2"]
      settlement_keeps_balance_equal_to_ledger_sum
        [OF a, of 0 4 "two_routes 0 [trip1]" no_fault "''ann''" 2 1 "disk_full_at 2"]
    by blast
qed

section \<open>The fare of a forced settlement\<close>

lemma static_tbl_simps [simp]:
  "route_tbl (update_wallet_balance b uid w) = route_tbl w"
  "route_tbl (insert_transaction_log uid amt ty t w) = route_tbl w"
  "route_tbl (update_trip_status st tid w) = route_tbl w"
  "route_tbl (insert_active_trip uid sh rs st w) = route_tbl w"
  "route_stop_tbl (update_wallet_balance b uid w) = route_stop_tbl w"
  "route_stop_tbl (insert_transaction_log uid amt ty t w) = route_stop_tbl w"
  "route_stop_tbl (update_trip_status st tid w) = route_stop_tbl w"
  "route_stop_tbl (insert_active_trip uid sh rs st w) = route_stop_tbl w"
  by (simp_all add: update_trip_status_def insert_active_trip_def insert_transaction_log_def
        update_wallet_balance_def)

lemma transaction_log_tbl_simps [simp]:
  "transaction_log_tbl (update_wallet_balance b uid w) = transaction_log_tbl w"
  "transaction_log_tbl (update_trip_status st tid w) = transaction_log_tbl w"
  "transaction_log_tbl (insert_active_trip uid sh rs st w) = transaction_log_tbl w"
  "transaction_log_tbl (insert_transaction_log uid amt ty t w)
     = transaction_log_tbl w @
         [\<lparr>txn_id = next_id (map txn_id (transaction_log_tbl w)), txn_rider_id = uid,
           amount = amt, txn_type = ty, related_trip_id = t\<rparr>]"
  by (simp_all add: update_trip_status_def insert_active_trip_def insert_transaction_log_def
        update_wallet_balance_def)




lemma same_rows_refl [simp]: "same_rows w w"
  by (simp add: same_rows_def)










lemma balances_other_writes [simp]:
  "balances (insert_transaction_log uid amt ty t w) x = balances w x"
  "balances (update_trip_status st tid w) x = balances w x"
  "balances (insert_active_trip uid sh rs st w) x = balances w x"
  by (simp_all add: balances_def)

lemma appended_append [simp]:
  "transaction_log_tbl w' = transaction_log_tbl w @ new \<Longrightarrow> appended w w' = new"
  by (simp add: appended_def)

lemma appended_same [simp]: "appended w w = []"
  by (simp add: appended_def)



















section \<open>The end of a shift when the store rolls back\<close>

text \<open>
  C9. The claim is that the end of a shift visits every ACTIVE trip of the shuttle once
  and that a failure while settling one trip does not prevent the others from being
  settled. The loop does visit every trip once and goes on after a failure, but the
  whole batch is one transaction, committed at line 553, and the handler of line 551
  only prints. Three riders hold 5.00 each and have an ACTIVE trip on shuttle 1; the disk
  is full at the ledger insert of trip 2, and SQLite rolls the open transaction back.
  Trip 1 has been reported as auto-completed with 1.00 charged, and its three writes are
  gone with the rollback; trip 3 is settled in a new transaction. In the stored database
  trip 1 is still ACTIVE, its rider still holds 5.00 and there is no ledger row for it:
  the failure of trip 2 has undone the settlement of trip 1.
\<close>

theorem end_of_shift_rollback_drops_reported_settlement:
  "handle_end_of_shift py_float (disk_full_at 2) 1 long_shift_db
     = ([EndingShift, Resolving 3, AutoCompleted ''ann'' 1, ErrorResolving 2 StoreFailure,
         AutoCompleted ''cat'' 1],
        long_shift_db
          \<lparr>user_tbl := [\<lparr>user_id = 1, username = ''ann'', wallet_balance = 5\<rparr>,
                        \<lparr>user_id = 2, username = ''bob'', wallet_balance = 5\<rparr>,
                        \<lparr>user_id = 3, username = ''cat'', wallet_balance = 4\<rparr>],
           active_trip_tbl := [trip1, trip2, trip3\<lparr>status := AUTO_COMPLETED\<rparr>],
           transaction_log_tbl :=
             [\<lparr>txn_id = 1, txn_rider_id = 3, amount = - 1, txn_type = RIDE_PAYMENT,
               related_trip_id = Some 3\<rparr>]\<rparr>)"
  by (simp add: Let_def shift_defs stmt_defs fixture_defs py_eval)

end
